theory Spec2Isabelle
  imports Main
begin

section \<open>Values exchanged with the collaborators\<close>

text \<open>
  JSON values, as the handlers build them from Python dicts, lists, strings and
  integers.  A dict is an association list in insertion order.
\<close>

datatype json =
    JNone
  | JBool bool
  | JInt int
  | JStr string
  | JList "json list"
  | JDict "(string \<times> json) list"

text \<open>
  \<open>azure.core.exceptions.HttpResponseError\<close>: the only exception of the management
  SDK that the routers catch.  It carries the remote status code and message.
\<close>

datatype HttpResponseError = HttpResponseError (err_status_code: int) (err_message: string)

text \<open>
  The poller returned by the SDK's \<open>begin_*\<close> operations
  (\<open>azure.core.polling.LROPoller\<close>).  \<open>result()\<close> blocks until the long-running
  operation is terminal and either raises or returns the final resource (kept here
  as its \<open>as_dict()\<close>; \<open>JNone\<close> for a delete).  The class has no method
  \<open>polling_url\<close>; see \<open>polling_url\<close> below.
\<close>

record LROPoller =
  poller_result :: "HttpResponseError + json"

text \<open>
  The calls the routers make on \<open>NetAppManagementClient\<close>.  The resource group is
  the module constant \<open>RESOURCE_GROUP\<close>, which is \<open>None\<close> in a module that reads it
  without a default from an environment that lacks it.
\<close>

datatype begin_call =
    Accounts_begin_create_or_update "string option" string json
  | Accounts_begin_delete "string option" string
  | Pools_begin_create_or_update "string option" string string json
  | Pools_begin_delete "string option" string string

datatype list_call =
    Accounts_list "string option"
  | Pools_list "string option" string

text \<open>
  The control-plane client is an external collaborator: a stub that answers every
  call either with an \<open>HttpResponseError\<close> or with its result.
\<close>

record NetAppManagementClient =
  begin_op :: "begin_call \<Rightarrow> HttpResponseError + LROPoller"
  list_op :: "list_call \<Rightarrow> HttpResponseError + json list"

text \<open>
  What a handler did to the collaborator, in order: the calls on the client, and
  what it asked of the poller it got back (\<open>result()\<close>, \<open>polling_url()\<close>).
\<close>

datatype sdk_event =
    Began begin_call
  | Listed list_call
  | Poller_result
  | Poller_polling_url

fun is_mutating :: "sdk_event \<Rightarrow> bool" where
  "is_mutating (Began c) = True"
| "is_mutating e = False"

text \<open>
  The exceptions that leave a handler: \<open>fastapi.HTTPException(status_code, detail)\<close>,
  which the handlers raise themselves; an \<open>AttributeError\<close> (with the name of the
  missing attribute); and an \<open>HttpResponseError\<close> of the SDK that no \<open>except\<close>
  clause caught.
\<close>

datatype py_exception =
    HTTPException int string
  | AttributeError string
  | Uncaught HttpResponseError

text \<open>What running a handler gives: the exception it raised or the value it returned,
  and the trace of collaborator calls.\<close>

type_synonym outcome = "(py_exception + json) \<times> sdk_event list"

text \<open>
  \<open>poller.polling_url()\<close>: \<open>LROPoller\<close> has no such attribute, so the expression
  raises \<open>AttributeError\<close>, which is not an \<open>HttpResponseError\<close> and passes the
  \<open>except HttpResponseError\<close> clause of every handler.
\<close>

definition polling_url :: "LROPoller \<Rightarrow> py_exception + string" where
  "polling_url poller = Inl (AttributeError ''polling_url'')"

section \<open>Process configuration\<close>

type_synonym environ = "string \<rightharpoonup> string"

text \<open>\<open>os.getenv(key, default)\<close>: the value when the variable is set (the empty string
  included), the default otherwise.\<close>

definition getenv_default :: "environ \<Rightarrow> string \<Rightarrow> string \<Rightarrow> string" where
  "getenv_default env k d = (case env k of None \<Rightarrow> d | Some v \<Rightarrow> v)"

text \<open>\<open>API_KEY = os.getenv("MCP_API_KEY", "changeme")\<close>, the same line in app.py and in
  every router module.\<close>

definition API_KEY :: "environ \<Rightarrow> string" where
  "API_KEY env = getenv_default env ''MCP_API_KEY'' ''changeme''"

text \<open>The body of \<open>verify_key\<close>, the same in every module that defines it.\<close>

definition verify_key :: "environ \<Rightarrow> string \<Rightarrow> py_exception + unit" where
  "verify_key env x_api_key =
     (if x_api_key \<noteq> API_KEY env then Inl (HTTPException 401 ''Invalid API Key'')
      else Inr ())"

text \<open>\<open>sdk_error\<close> (named \<open>_err\<close> in anf_aiops_complete): the same body in all four
  router modules.\<close>

definition sdk_error :: "HttpResponseError \<Rightarrow> py_exception" where
  "sdk_error err = HTTPException (err_status_code err) (err_message err)"

section \<open>src/mcp_server/routers/pools.py\<close>

definition pools_RESOURCE_GROUP :: "environ \<Rightarrow> string option" where
  "pools_RESOURCE_GROUP env = env ''AZURE_RESOURCE_GROUP''"

record PoolBody =
  account :: string
  pool :: string
  location :: string
  size_tb :: int
  service_level :: string

definition pools_list_pools :: "environ \<Rightarrow> NetAppManagementClient \<Rightarrow> string \<Rightarrow> outcome" where
  "pools_list_pools env client acct =
     (let c = Pools_list (pools_RESOURCE_GROUP env) acct in
      case list_op client c of
        Inl err \<Rightarrow> (Inl (sdk_error err), [Listed c])
      | Inr ps \<Rightarrow> (Inr (JList ps), [Listed c]))"

definition pools_create_pool ::
  "environ \<Rightarrow> NetAppManagementClient \<Rightarrow> PoolBody \<Rightarrow> bool \<Rightarrow> outcome" where
  "pools_create_pool env client body wait =
     (let params = JDict [(''location'', JStr (PoolBody.location body)),
                          (''sku'', JDict [(''name'', JStr (service_level body))]),
                          (''size'', JInt (size_tb body * 1024 ^ 4))];
          c = Pools_begin_create_or_update (pools_RESOURCE_GROUP env) (account body) (pool body) params
      in case begin_op client c of
           Inl err \<Rightarrow> (Inl (sdk_error err), [Began c])
         | Inr poller \<Rightarrow>
             if wait then
               (case poller_result poller of
                  Inl err \<Rightarrow> (Inl (sdk_error err), [Began c, Poller_result])
                | Inr r \<Rightarrow> (Inr r, [Began c, Poller_result]))
             else (case polling_url poller of
                        Inl e \<Rightarrow> (Inl e, [Began c, Poller_polling_url])
                      | Inr url \<Rightarrow> (Inr (JDict [(''operation'', JStr url)]),
                                   [Began c, Poller_polling_url])))"

text \<open>
  The patch that \<open>update_pool\<close> builds: \<open>if new_size_tb:\<close> and \<open>if service_level:\<close>
  are Python truthiness tests, so \<open>None\<close>, \<open>0\<close> and the empty string add no key.
  The same four lines stand in both copies of the handler.
\<close>

definition update_body :: "int option \<Rightarrow> string option \<Rightarrow> json" where
  "update_body new_size_tb service_level' =
     JDict ((case new_size_tb of
               None \<Rightarrow> []
             | Some n \<Rightarrow> if n \<noteq> 0 then [(''size'', JInt (n * 1024 ^ 4))] else [])
          @ (case service_level' of
               None \<Rightarrow> []
             | Some s \<Rightarrow> if s \<noteq> [] then [(''sku'', JDict [(''name'', JStr s)])] else []))"

definition pools_update_pool ::
  "environ \<Rightarrow> NetAppManagementClient \<Rightarrow> string \<Rightarrow> string \<Rightarrow> int option \<Rightarrow> string option \<Rightarrow> bool \<Rightarrow> outcome" where
  "pools_update_pool env client acct pl new_size_tb service_level' wait =
     (if new_size_tb = None \<and> service_level' = None
      then (Inl (HTTPException 400 ''Specify new_size_tb or service_level''), [])
      else
        let body = update_body new_size_tb service_level';
            c = Pools_begin_create_or_update (pools_RESOURCE_GROUP env) acct pl body
        in case begin_op client c of
             Inl err \<Rightarrow> (Inl (sdk_error err), [Began c])
           | Inr poller \<Rightarrow>
               if wait then
                 (case poller_result poller of
                    Inl err \<Rightarrow> (Inl (sdk_error err), [Began c, Poller_result])
                  | Inr r \<Rightarrow> (Inr r, [Began c, Poller_result]))
               else (case polling_url poller of
                          Inl e \<Rightarrow> (Inl e, [Began c, Poller_polling_url])
                        | Inr url \<Rightarrow> (Inr (JDict [(''operation'', JStr url)]),
                                     [Began c, Poller_polling_url])))"

definition pools_delete_pool ::
  "environ \<Rightarrow> NetAppManagementClient \<Rightarrow> string \<Rightarrow> string \<Rightarrow> bool \<Rightarrow> outcome" where
  "pools_delete_pool env client acct pl wait =
     (let c = Pools_begin_delete (pools_RESOURCE_GROUP env) acct pl in
      case begin_op client c of
        Inl err \<Rightarrow> (Inl (sdk_error err), [Began c])
      | Inr poller \<Rightarrow>
          if wait then
            (case poller_result poller of
               Inl err \<Rightarrow> (Inl (sdk_error err), [Began c, Poller_result])
             | Inr r \<Rightarrow> (Inr (JDict [(''status'', JStr ''deleted'')]), [Began c, Poller_result]))
          else (case polling_url poller of
                     Inl e \<Rightarrow> (Inl e, [Began c, Poller_polling_url])
                   | Inr url \<Rightarrow> (Inr (JDict [(''operation'', JStr url)]),
                                [Began c, Poller_polling_url])))"

section \<open>src/mcp_server/routers/accounts.py\<close>

definition accounts_RESOURCE_GROUP :: "environ \<Rightarrow> string option" where
  "accounts_RESOURCE_GROUP env = env ''AZURE_RESOURCE_GROUP''"

text \<open>The module raises \<open>RuntimeError\<close> at import unless both variables are set and
  non-empty.\<close>

definition accounts_module_loads :: "environ \<Rightarrow> bool" where
  "accounts_module_loads env =
     (\<not> (env ''AZURE_SUBSCRIPTION_ID'' \<in> {None, Some []} \<or> env ''AZURE_RESOURCE_GROUP'' \<in> {None, Some []}))"

record AccountCreateBody =
  name :: string
  location :: string
  active_directory :: "(string \<times> json) list option"

text \<open>\<open>[body.active_directory] if body.active_directory else []\<close>: \<open>None\<close> and the
  empty dict are falsy.\<close>

definition active_directories :: "(string \<times> json) list option \<Rightarrow> json list" where
  "active_directories ad =
     (case ad of None \<Rightarrow> [] | Some d \<Rightarrow> if d \<noteq> [] then [JDict d] else [])"

definition accounts_list_accounts :: "environ \<Rightarrow> NetAppManagementClient \<Rightarrow> outcome" where
  "accounts_list_accounts env client =
     (let c = Accounts_list (accounts_RESOURCE_GROUP env) in
      case list_op client c of
        Inl err \<Rightarrow> (Inl (sdk_error err), [Listed c])
      | Inr accts \<Rightarrow> (Inr (JList accts), [Listed c]))"

definition accounts_create_account ::
  "environ \<Rightarrow> NetAppManagementClient \<Rightarrow> AccountCreateBody \<Rightarrow> bool \<Rightarrow> outcome" where
  "accounts_create_account env client body wait =
     (let c = Accounts_begin_create_or_update (accounts_RESOURCE_GROUP env) (name body)
                (JDict [(''location'', JStr (AccountCreateBody.location body)),
                        (''properties'',
                           JDict [(''activeDirectories'',
                                   JList (active_directories (active_directory body)))])])
      in case begin_op client c of
           Inl err \<Rightarrow> (Inl (sdk_error err), [Began c])
         | Inr poller \<Rightarrow>
             if wait then
               (case poller_result poller of
                  Inl err \<Rightarrow> (Inl (sdk_error err), [Began c, Poller_result])
                | Inr result \<Rightarrow> (Inr result, [Began c, Poller_result]))
             else (case polling_url poller of
                        Inl e \<Rightarrow> (Inl e, [Began c, Poller_polling_url])
                      | Inr url \<Rightarrow> (Inr (JDict [(''operation'', JStr url)]),
                                   [Began c, Poller_polling_url])))"

definition accounts_delete_account ::
  "environ \<Rightarrow> NetAppManagementClient \<Rightarrow> string \<Rightarrow> bool \<Rightarrow> outcome" where
  "accounts_delete_account env client account_name wait =
     (let c = Accounts_begin_delete (accounts_RESOURCE_GROUP env) account_name in
      case begin_op client c of
        Inl err \<Rightarrow> (Inl (sdk_error err), [Began c])
      | Inr poller \<Rightarrow>
          if wait then
            (case poller_result poller of
               Inl err \<Rightarrow> (Inl (sdk_error err), [Began c, Poller_result])
             | Inr r \<Rightarrow> (Inr (JDict [(''status'', JStr ''deleted'')]), [Began c, Poller_result]))
          else (case polling_url poller of
                     Inl e \<Rightarrow> (Inl e, [Began c, Poller_polling_url])
                   | Inr url \<Rightarrow> (Inr (JDict [(''operation'', JStr url)]),
                                [Began c, Poller_polling_url])))"

section \<open>src/anf_aiops_full/mcp_server/routers/accounts.py\<close>

text \<open>This copy reads the resource group with the default \<open>"dummy"\<close>, and builds the
  \<open>properties\<close> of a new account differently.\<close>

definition full_RESOURCE_GROUP :: "environ \<Rightarrow> string option" where
  "full_RESOURCE_GROUP env = Some (getenv_default env ''AZURE_RESOURCE_GROUP'' ''dummy'')"

definition full_list_accounts :: "environ \<Rightarrow> NetAppManagementClient \<Rightarrow> outcome" where
  "full_list_accounts env client =
     (let c = Accounts_list (full_RESOURCE_GROUP env) in
      case list_op client c of
        Inl err \<Rightarrow> (Inl (sdk_error err), [Listed c])
      | Inr accts \<Rightarrow> (Inr (JList accts), [Listed c]))"

definition full_create_account ::
  "environ \<Rightarrow> NetAppManagementClient \<Rightarrow> AccountCreateBody \<Rightarrow> bool \<Rightarrow> outcome" where
  "full_create_account env client body wait =
     (let c = Accounts_begin_create_or_update (full_RESOURCE_GROUP env) (name body)
                (JDict [(''location'', JStr (AccountCreateBody.location body)),
                        (''properties'',
                           (case active_directory body of
                              None \<Rightarrow> JDict []
                            | Some d \<Rightarrow>
                                if d \<noteq> [] then JDict [(''activeDirectories'', JList [JDict d])]
                                else JDict []))])
      in case begin_op client c of
           Inl err \<Rightarrow> (Inl (sdk_error err), [Began c])
         | Inr poller \<Rightarrow>
             if wait then
               (case poller_result poller of
                  Inl err \<Rightarrow> (Inl (sdk_error err), [Began c, Poller_result])
                | Inr result \<Rightarrow> (Inr result, [Began c, Poller_result]))
             else (case polling_url poller of
                        Inl e \<Rightarrow> (Inl e, [Began c, Poller_polling_url])
                      | Inr url \<Rightarrow> (Inr (JDict [(''operation'', JStr url)]),
                                   [Began c, Poller_polling_url])))"

definition full_delete_account ::
  "environ \<Rightarrow> NetAppManagementClient \<Rightarrow> string \<Rightarrow> bool \<Rightarrow> outcome" where
  "full_delete_account env client account_name wait =
     (let c = Accounts_begin_delete (full_RESOURCE_GROUP env) account_name in
      case begin_op client c of
        Inl err \<Rightarrow> (Inl (sdk_error err), [Began c])
      | Inr poller \<Rightarrow>
          if wait then
            (case poller_result poller of
               Inl err \<Rightarrow> (Inl (sdk_error err), [Began c, Poller_result])
             | Inr r \<Rightarrow> (Inr (JDict [(''status'', JStr ''deleted'')]), [Began c, Poller_result]))
          else (case polling_url poller of
                     Inl e \<Rightarrow> (Inl e, [Began c, Poller_polling_url])
                   | Inr url \<Rightarrow> (Inr (JDict [(''operation'', JStr url)]),
                                [Began c, Poller_polling_url])))"

section \<open>src/anf_aiops_complete/mcp_server/routers/pools.py\<close>

definition complete_RESOURCE_GROUP :: "environ \<Rightarrow> string option" where
  "complete_RESOURCE_GROUP env = Some (getenv_default env ''AZURE_RESOURCE_GROUP'' ''dummy'')"

text \<open>
  \<open>PoolSpec\<close> has the fields of \<open>PoolBody\<close> and two constraints:
  \<open>size_tb: int = Field(..., gt=0)\<close> and
  \<open>service_level: str = Field(..., regex="^(Ultra|Premium|Standard|StandardZRS)$")\<close>.
  The pattern is applied with Python's \<open>re.match\<close>, where \<open>$\<close> matches at the end of
  the string and also just before a newline that ends the string.
\<close>

type_synonym PoolSpec = PoolBody

definition service_levels :: "string list" where
  "service_levels = [''Ultra'', ''Premium'', ''Standard'', ''StandardZRS'']"

definition service_level_regex_matches :: "string \<Rightarrow> bool" where
  "service_level_regex_matches s =
     (s \<in> set service_levels \<or> s \<in> set (map (\<lambda>t. t @ [CHR 0x0A]) service_levels))"

text \<open>The locations of the fields of a \<open>PoolSpec\<close> that fail their constraint.\<close>

definition PoolSpec_errors :: "PoolSpec \<Rightarrow> string list list" where
  "PoolSpec_errors spec =
     (if size_tb spec > 0 then [] else [[''body'', ''size_tb'']])
   @ (if service_level_regex_matches (service_level spec) then [] else [[''body'', ''service_level'']])"

definition complete_list_pools :: "environ \<Rightarrow> NetAppManagementClient \<Rightarrow> string \<Rightarrow> outcome" where
  "complete_list_pools env client acct =
     (let c = Pools_list (complete_RESOURCE_GROUP env) acct in
      case list_op client c of
        Inl err \<Rightarrow> (Inl (sdk_error err), [Listed c])
      | Inr ps \<Rightarrow> (Inr (JList ps), [Listed c]))"

definition complete_create_pool ::
  "environ \<Rightarrow> NetAppManagementClient \<Rightarrow> PoolSpec \<Rightarrow> bool \<Rightarrow> outcome" where
  "complete_create_pool env client spec wait =
     (let params = JDict [(''location'', JStr (PoolBody.location spec)),
                          (''sku'', JDict [(''name'', JStr (service_level spec))]),
                          (''size'', JInt (size_tb spec * 1024 ^ 4))];
          c = Pools_begin_create_or_update (complete_RESOURCE_GROUP env) (account spec) (pool spec) params
      in case begin_op client c of
           Inl err \<Rightarrow> (Inl (sdk_error err), [Began c])
         | Inr poller \<Rightarrow>
             if wait then
               (case poller_result poller of
                  Inl err \<Rightarrow> (Inl (sdk_error err), [Began c, Poller_result])
                | Inr r \<Rightarrow> (Inr r, [Began c, Poller_result]))
             else (case polling_url poller of
                        Inl e \<Rightarrow> (Inl e, [Began c, Poller_polling_url])
                      | Inr url \<Rightarrow> (Inr (JDict [(''operation'', JStr url)]),
                                   [Began c, Poller_polling_url])))"

definition complete_update_pool ::
  "environ \<Rightarrow> NetAppManagementClient \<Rightarrow> string \<Rightarrow> string \<Rightarrow> int option \<Rightarrow> string option \<Rightarrow> bool \<Rightarrow> outcome" where
  "complete_update_pool env client acct pl new_size_tb service_level' wait =
     (if new_size_tb = None \<and> service_level' = None
      then (Inl (HTTPException 400 ''Specify new_size_tb or service_level''), [])
      else
        let body = update_body new_size_tb service_level';
            c = Pools_begin_create_or_update (complete_RESOURCE_GROUP env) acct pl body
        in case begin_op client c of
             Inl err \<Rightarrow> (Inl (sdk_error err), [Began c])
           | Inr poller \<Rightarrow>
               if wait then
                 (case poller_result poller of
                    Inl err \<Rightarrow> (Inl (sdk_error err), [Began c, Poller_result])
                  | Inr r \<Rightarrow> (Inr r, [Began c, Poller_result]))
               else (case polling_url poller of
                          Inl e \<Rightarrow> (Inl e, [Began c, Poller_polling_url])
                        | Inr url \<Rightarrow> (Inr (JDict [(''operation'', JStr url)]),
                                     [Began c, Poller_polling_url])))"

definition complete_delete_pool ::
  "environ \<Rightarrow> NetAppManagementClient \<Rightarrow> string \<Rightarrow> string \<Rightarrow> bool \<Rightarrow> outcome" where
  "complete_delete_pool env client acct pl wait =
     (let c = Pools_begin_delete (complete_RESOURCE_GROUP env) acct pl in
      case begin_op client c of
        Inl err \<Rightarrow> (Inl (sdk_error err), [Began c])
      | Inr poller \<Rightarrow>
          if wait then
            (case poller_result poller of
               Inl err \<Rightarrow> (Inl (sdk_error err), [Began c, Poller_result])
             | Inr r \<Rightarrow> (Inr (JDict [(''status'', JStr ''deleted'')]), [Began c, Poller_result]))
          else (case polling_url poller of
                     Inl e \<Rightarrow> (Inl e, [Began c, Poller_polling_url])
                   | Inr url \<Rightarrow> (Inr (JDict [(''operation'', JStr url)]),
                                [Began c, Poller_polling_url])))"

section \<open>src/mcp-server/app.py\<close>

text \<open>
  The single-file app.  It raises \<open>RuntimeError\<close> at import unless both Azure
  variables are set and non-empty.  Its two handlers have no \<open>wait\<close> parameter and no
  \<open>try\<close>: an \<open>HttpResponseError\<close> of the client leaves the handler as it is, and
  \<open>create_account\<close> always waits for the result.
\<close>

definition standalone_module_loads :: "environ \<Rightarrow> bool" where
  "standalone_module_loads env =
     (\<not> (env ''AZURE_SUBSCRIPTION_ID'' \<in> {None, Some []} \<or> env ''AZURE_RESOURCE_GROUP'' \<in> {None, Some []}))"

definition standalone_RESOURCE_GROUP :: "environ \<Rightarrow> string option" where
  "standalone_RESOURCE_GROUP env = env ''AZURE_RESOURCE_GROUP''"

definition standalone_list_accounts :: "environ \<Rightarrow> NetAppManagementClient \<Rightarrow> outcome" where
  "standalone_list_accounts env client =
     (let c = Accounts_list (standalone_RESOURCE_GROUP env) in
      case list_op client c of
        Inl err \<Rightarrow> (Inl (Uncaught err), [Listed c])
      | Inr accounts \<Rightarrow> (Inr (JList accounts), [Listed c]))"

definition standalone_create_account ::
  "environ \<Rightarrow> NetAppManagementClient \<Rightarrow> string \<Rightarrow> string \<Rightarrow> outcome" where
  "standalone_create_account env client account_name location' =
     (let params = JDict [(''location'', JStr location')];
          c = Accounts_begin_create_or_update (standalone_RESOURCE_GROUP env) account_name params
      in case begin_op client c of
           Inl err \<Rightarrow> (Inl (Uncaught err), [Began c])
         | Inr poller \<Rightarrow>
             (case poller_result poller of
                Inl err \<Rightarrow> (Inl (Uncaught err), [Began c, Poller_result])
              | Inr result \<Rightarrow> (Inr result, [Began c, Poller_result])))"

section \<open>Routing: the framework around the handlers\<close>

text \<open>
  What FastAPI does with the declarations of the routers.  Every router is built
  with \<open>dependencies=[Depends(verify_key)]\<close> (the single-file app puts the same
  dependency on each of its two account routes), and \<open>verify_key\<close> declares its
  parameter as \<open>x_api_key: str = Header(...)\<close>, a required header:
  \<^item> without the header the framework does not call \<open>verify_key\<close>; the request
    fails validation and is answered with status 422;
  \<^item> with the header, \<open>verify_key\<close> runs before the parameters of the route are
    validated, and an \<open>HTTPException\<close> it raises becomes the response;
  \<^item> a body that breaks a constraint of its model is answered with status 422 and
    the handler is not called;
  \<^item> an \<open>HTTPException\<close> raised by the handler becomes a response with its status
    code and \<open>{"detail": detail}\<close>; any other exception that leaves the handler is
    answered with status 500 and the text \<open>Internal Server Error\<close>; a returned value
    is sent with the status code of the route decorator.
  The 422 body lists the locations of the failing fields (messages left out).
\<close>

datatype response = Response (status: int) (content: json)

definition validation_response :: "string list list \<Rightarrow> response" where
  "validation_response locs =
     Response 422 (JDict [(''detail'',
        JList (map (\<lambda>loc. JDict [(''loc'', JList (map JStr loc))]) locs))])"

fun exception_response :: "py_exception \<Rightarrow> response" where
  "exception_response (HTTPException status_code detail) =
     Response status_code (JDict [(''detail'', JStr detail)])"
| "exception_response e = Response 500 (JStr ''Internal Server Error'')"

definition route ::
  "environ \<Rightarrow> int \<Rightarrow> string option \<Rightarrow> string list list \<Rightarrow> outcome
     \<Rightarrow> response \<times> sdk_event list" where
  "route env status_code x_api_key errors run =
     (case x_api_key of
        None \<Rightarrow> (validation_response ([''header'', ''x-api-key''] # errors), [])
      | Some k \<Rightarrow>
          (case verify_key env k of
             Inl e \<Rightarrow> (exception_response e, [])
           | Inr u \<Rightarrow>
               if errors \<noteq> [] then (validation_response errors, [])
               else (case run of
                       (Inl e, tr) \<Rightarrow> (exception_response e, tr)
                     | (Inr v, tr) \<Rightarrow> (Response status_code v, tr))))"

text \<open>The routes of an accounts router and of a pools router, with their parsed
  parameters (the last one of a mutating route is the query flag \<open>wait\<close>).\<close>

datatype accounts_request =
    List_accounts
  | Create_account AccountCreateBody bool
  | Delete_account string bool

datatype pools_request =
    List_pools string
  | Create_pool PoolBody bool
  | Update_pool string string "int option" "string option" bool
  | Delete_pool string string bool

text \<open>The two account routes of the single-file app: GET /accounts, and POST /accounts
  with the query parameters \<open>account_name\<close> and \<open>location\<close>.\<close>

datatype standalone_request =
    Standalone_list_accounts
  | Standalone_create_account string string

text \<open>The status code of each route: \<open>status_code=202\<close> on the mutating routes of
  the routers, the default 200 on the list routes and on both routes of the
  single-file app.\<close>

fun accounts_status_code :: "accounts_request \<Rightarrow> int" where
  "accounts_status_code List_accounts = 200"
| "accounts_status_code (Create_account body wait) = 202"
| "accounts_status_code (Delete_account account_name wait) = 202"

fun pools_status_code :: "pools_request \<Rightarrow> int" where
  "pools_status_code (List_pools acct) = 200"
| "pools_status_code (Create_pool body wait) = 202"
| "pools_status_code (Update_pool acct pl new_size_tb sl wait) = 202"
| "pools_status_code (Delete_pool acct pl wait) = 202"

text \<open>Only \<open>PoolSpec\<close> constrains its fields; \<open>PoolBody\<close> and \<open>AccountCreateBody\<close>
  give types and descriptions only.\<close>

fun complete_request_errors :: "pools_request \<Rightarrow> string list list" where
  "complete_request_errors (Create_pool spec wait) = PoolSpec_errors spec"
| "complete_request_errors r = []"

text \<open>The four router modules and the single-file app under src: the handler each
  route runs.\<close>

datatype invocation =
    Mcp_accounts accounts_request
  | Mcp_pools pools_request
  | Full_accounts accounts_request
  | Complete_pools pools_request
  | Standalone standalone_request

fun invoke :: "environ \<Rightarrow> NetAppManagementClient \<Rightarrow> invocation \<Rightarrow> outcome" where
  "invoke env client (Mcp_accounts List_accounts) = accounts_list_accounts env client"
| "invoke env client (Mcp_accounts (Create_account body wait)) =
     accounts_create_account env client body wait"
| "invoke env client (Mcp_accounts (Delete_account account_name wait)) =
     accounts_delete_account env client account_name wait"
| "invoke env client (Mcp_pools (List_pools acct)) = pools_list_pools env client acct"
| "invoke env client (Mcp_pools (Create_pool body wait)) = pools_create_pool env client body wait"
| "invoke env client (Mcp_pools (Update_pool acct pl new_size_tb sl wait)) =
     pools_update_pool env client acct pl new_size_tb sl wait"
| "invoke env client (Mcp_pools (Delete_pool acct pl wait)) = pools_delete_pool env client acct pl wait"
| "invoke env client (Full_accounts List_accounts) = full_list_accounts env client"
| "invoke env client (Full_accounts (Create_account body wait)) =
     full_create_account env client body wait"
| "invoke env client (Full_accounts (Delete_account account_name wait)) =
     full_delete_account env client account_name wait"
| "invoke env client (Complete_pools (List_pools acct)) = complete_list_pools env client acct"
| "invoke env client (Complete_pools (Create_pool spec wait)) =
     complete_create_pool env client spec wait"
| "invoke env client (Complete_pools (Update_pool acct pl new_size_tb sl wait)) =
     complete_update_pool env client acct pl new_size_tb sl wait"
| "invoke env client (Complete_pools (Delete_pool acct pl wait)) =
     complete_delete_pool env client acct pl wait"
| "invoke env client (Standalone Standalone_list_accounts) = standalone_list_accounts env client"
| "invoke env client (Standalone (Standalone_create_account account_name location')) =
     standalone_create_account env client account_name location'"

fun route_status_code :: "invocation \<Rightarrow> int" where
  "route_status_code (Mcp_accounts r) = accounts_status_code r"
| "route_status_code (Mcp_pools r) = pools_status_code r"
| "route_status_code (Full_accounts r) = accounts_status_code r"
| "route_status_code (Complete_pools r) = pools_status_code r"
| "route_status_code (Standalone r) = 200"

fun request_errors :: "invocation \<Rightarrow> string list list" where
  "request_errors (Complete_pools r) = complete_request_errors r"
| "request_errors i = []"

text \<open>A request to a route of one of the routers, with its \<open>x-api-key\<close> header if it
  has one.\<close>

definition serve ::
  "environ \<Rightarrow> NetAppManagementClient \<Rightarrow> string option \<Rightarrow> invocation
     \<Rightarrow> response \<times> sdk_event list" where
  "serve env client x_api_key i =
     route env (route_status_code i) x_api_key (request_errors i) (invoke env client i)"

text \<open>The \<open>wait\<close> flag of a mutating route of a router; a list route has none, and
  neither has a route of the single-file app.\<close>

fun accounts_wait :: "accounts_request \<Rightarrow> bool option" where
  "accounts_wait List_accounts = None"
| "accounts_wait (Create_account body wait) = Some wait"
| "accounts_wait (Delete_account account_name wait) = Some wait"

fun pools_wait :: "pools_request \<Rightarrow> bool option" where
  "pools_wait (List_pools acct) = None"
| "pools_wait (Create_pool body wait) = Some wait"
| "pools_wait (Update_pool acct pl new_size_tb sl wait) = Some wait"
| "pools_wait (Delete_pool acct pl wait) = Some wait"

fun wait_flag :: "invocation \<Rightarrow> bool option" where
  "wait_flag (Mcp_accounts r) = accounts_wait r"
| "wait_flag (Mcp_pools r) = pools_wait r"
| "wait_flag (Full_accounts r) = accounts_wait r"
| "wait_flag (Complete_pools r) = pools_wait r"
| "wait_flag (Standalone r) = None"

fun in_router :: "invocation \<Rightarrow> bool" where
  "in_router (Standalone r) = False"
| "in_router i = True"

text \<open>
  Whether the module of a route can be imported in an environment.
  src/mcp_server/routers/pools.py cannot: in its first line every quote of the
  docstring has a backslash before it, which is a syntax error; its functions are
  modelled as they are written, and the same bodies stand in anf_aiops_complete.  The accounts router of src/mcp_server and the single-file
  app need both Azure variables; the other two modules read them with a default.
\<close>

fun module_imports :: "environ \<Rightarrow> invocation \<Rightarrow> bool" where
  "module_imports env (Mcp_accounts r) = accounts_module_loads env"
| "module_imports env (Mcp_pools r) = False"
| "module_imports env (Full_accounts r) = True"
| "module_imports env (Complete_pools r) = True"
| "module_imports env (Standalone r) = standalone_module_loads env"

fun is_delete :: "invocation \<Rightarrow> bool" where
  "is_delete (Mcp_accounts (Delete_account account_name wait)) = True"
| "is_delete (Full_accounts (Delete_account account_name wait)) = True"
| "is_delete (Mcp_pools (Delete_pool acct pl wait)) = True"
| "is_delete (Complete_pools (Delete_pool acct pl wait)) = True"
| "is_delete i = False"

text \<open>An update that names neither a size nor a service level.\<close>

fun empty_update :: "invocation \<Rightarrow> bool" where
  "empty_update (Mcp_pools (Update_pool acct pl None None wait)) = True"
| "empty_update (Complete_pools (Update_pool acct pl None None wait)) = True"
| "empty_update i = False"

text \<open>
  GET /health, the same handler in every app.py: no dependency, no client call.
  (src/mcp_server/app.py imports the pools router above and so cannot be imported
  itself.)
\<close>

definition health :: "response \<times> sdk_event list" where
  "health = (Response 200 (JDict [(''status'', JStr ''ok'')]), [])"

section \<open>src/sdk/azure_netapp_mcp_client/client.py\<close>

text \<open>Python's \<open>str\<close> of an integer, for the f-string of \<open>_request\<close>.\<close>

fun str_nat :: "nat \<Rightarrow> string" where
  "str_nat n =
     (if n < 10 then [''0123456789'' ! n]
      else str_nat (n div 10) @ [''0123456789'' ! (n mod 10)])"

declare str_nat.simps [simp del]

definition str_int :: "int \<Rightarrow> string" where
  "str_int i = (if i < 0 then CHR ''-'' # str_nat (nat (- i)) else str_nat (nat i))"

text \<open>\<open>base_url.rstrip('/')\<close>.\<close>

definition rstrip_slash :: "string \<Rightarrow> string" where
  "rstrip_slash s = rev (dropWhile (\<lambda>c. c = CHR ''/'') (rev s))"

text \<open>
  The response object of \<open>requests\<close>: its status code, its text (\<open>resp.text\<close>), and what \<open>json()\<close>
  gives (\<open>None\<close> when the body is not JSON and \<open>json()\<close> raises).
\<close>

record requests_Response =
  status_code :: int
  resp_text :: string
  json_body :: "json option"

text \<open>The arguments of one call of \<open>requests.request\<close>.  The transport stands for
  that library function: it answers with the response it ends with (it follows
  redirects itself, inside the one call) or raises (a connection error, a timeout).\<close>

record http_call =
  http_method :: string
  url :: string
  headers :: "(string \<times> string) list"
  http_timeout :: int
  kwargs :: "(string \<times> json) list"

type_synonym transport = "http_call \<Rightarrow> string + requests_Response"

datatype client_error =
    ApiError string
  | JSONDecodeError
  | RequestException string

record AnfMcpClient =
  base_url :: string
  api_key :: string
  timeout :: int

text \<open>\<open>__init__\<close>: \<open>api_key or os.getenv("MCP_API_KEY") or "changeme"\<close>, where \<open>None\<close>
  and the empty string are falsy.\<close>

definition AnfMcpClient_init :: "environ \<Rightarrow> string \<Rightarrow> string option \<Rightarrow> int \<Rightarrow> AnfMcpClient" where
  "AnfMcpClient_init env base_url' api_key' timeout' =
     \<lparr>base_url = rstrip_slash base_url',
      api_key = (case api_key' of
                   Some k \<Rightarrow>
                     if k \<noteq> [] then k
                     else (case env ''MCP_API_KEY'' of
                             Some v \<Rightarrow> if v \<noteq> [] then v else ''changeme''
                           | None \<Rightarrow> ''changeme'')
                 | None \<Rightarrow>
                     (case env ''MCP_API_KEY'' of
                        Some v \<Rightarrow> if v \<noteq> [] then v else ''changeme''
                      | None \<Rightarrow> ''changeme'')),
      timeout = timeout'\<rparr>"

definition AnfMcpClient_headers :: "AnfMcpClient \<Rightarrow> (string \<times> string) list" where
  "AnfMcpClient_headers self = [(''x-api-key'', api_key self)]"

text \<open>\<open>_request\<close>, with the list of its calls of \<open>requests.request\<close>.\<close>

definition AnfMcpClient_request ::
  "transport \<Rightarrow> AnfMcpClient \<Rightarrow> string \<Rightarrow> string \<Rightarrow> (string \<times> json) list
     \<Rightarrow> (client_error + json) \<times> http_call list" where
  "AnfMcpClient_request requests_request self method path kw =
     (let call = \<lparr>http_method = method, url = base_url self @ path,
                    headers = AnfMcpClient_headers self, http_timeout = timeout self,
                    kwargs = kw\<rparr>
      in case requests_request call of
           Inl e \<Rightarrow> (Inl (RequestException e), [call])
         | Inr resp \<Rightarrow>
             if status_code resp \<ge> 400
             then (Inl (ApiError (str_int (status_code resp) @ '' '' @ resp_text resp)), [call])
             else (case json_body resp of
                     None \<Rightarrow> (Inl JSONDecodeError, [call])
                   | Some j \<Rightarrow> (Inr j, [call])))"

definition AnfMcpClient_list_accounts ::
  "transport \<Rightarrow> AnfMcpClient \<Rightarrow> (client_error + json) \<times> http_call list" where
  "AnfMcpClient_list_accounts requests_request self =
     AnfMcpClient_request requests_request self ''GET'' ''/accounts'' []"

definition AnfMcpClient_create_account ::
  "transport \<Rightarrow> AnfMcpClient \<Rightarrow> string \<Rightarrow> string \<Rightarrow> (client_error + json) \<times> http_call list" where
  "AnfMcpClient_create_account requests_request self name' location' =
     AnfMcpClient_request requests_request self ''POST'' ''/accounts''
       [(''json'', JDict [(''account_name'', JStr name'), (''location'', JStr location')])]"

section \<open>Stub collaborators\<close>

text \<open>A control-plane stub on which every call succeeds: a create or update ends
  with the resource below, a delete with nothing.\<close>

definition stub_resource :: json where
  "stub_resource = JDict [(''name'', JStr ''pool1''), (''provisioningState'', JStr ''Succeeded'')]"

fun stub_final :: "begin_call \<Rightarrow> json" where
  "stub_final (Accounts_begin_delete rg a) = JNone"
| "stub_final (Pools_begin_delete rg a p) = JNone"
| "stub_final c = stub_resource"

definition stub_client :: NetAppManagementClient where
  "stub_client =
     \<lparr>begin_op = (\<lambda>c. Inr \<lparr>poller_result = Inr (stub_final c)\<rparr>),
      list_op = (\<lambda>c. Inr [stub_resource])\<rparr>"

text \<open>A stub that rejects every call with 409, and one whose operations are accepted
  and then fail.\<close>

definition conflict :: HttpResponseError where
  "conflict = HttpResponseError 409 ''Conflict: operation in progress''"

definition rejecting_client :: NetAppManagementClient where
  "rejecting_client = \<lparr>begin_op = (\<lambda>c. Inl conflict), list_op = (\<lambda>c. Inl conflict)\<rparr>"

definition failing_poller :: LROPoller where
  "failing_poller = \<lparr>poller_result = Inl conflict\<rparr>"

definition failing_lro_client :: NetAppManagementClient where
  "failing_lro_client = \<lparr>begin_op = (\<lambda>c. Inr failing_poller), list_op = (\<lambda>c. Inl conflict)\<rparr>"

text \<open>A valid pool, and the same pool with a newline after its service level.\<close>

definition example_pool :: PoolBody where
  "example_pool = \<lparr>account = ''acct1'', pool = ''pool1'', location = ''eastus'',
                     size_tb = 4, service_level = ''Premium''\<rparr>"

definition newline_pool :: PoolSpec where
  "newline_pool = \<lparr>account = ''acct1'', pool = ''pool1'', location = ''eastus'',
                     size_tb = 4, service_level = ''Ultra'' @ [CHR 0x0A]\<rparr>"

text \<open>The call that \<open>create_pool\<close> of anf_aiops_complete makes for \<open>example_pool\<close> when
  no variable is set, and the one it makes for \<open>newline_pool\<close>.\<close>

definition example_create_call :: begin_call where
  "example_create_call =
     Pools_begin_create_or_update (Some ''dummy'') ''acct1'' ''pool1''
       (JDict [(''location'', JStr ''eastus''),
               (''sku'', JDict [(''name'', JStr ''Premium'')]),
               (''size'', JInt 4398046511104)])"

definition newline_create_call :: begin_call where
  "newline_create_call =
     Pools_begin_create_or_update (Some ''dummy'') ''acct1'' ''pool1''
       (JDict [(''location'', JStr ''eastus''),
               (''sku'', JDict [(''name'', JStr (''Ultra'' @ [CHR 0x0A]))]),
               (''size'', JInt 4398046511104)])"

text \<open>An environment in which the single-file app can be imported.\<close>

definition azure_env :: environ where
  "azure_env = [''AZURE_SUBSCRIPTION_ID'' \<mapsto> ''sub-1'', ''AZURE_RESOURCE_GROUP'' \<mapsto> ''rg-1'']"

text \<open>A thin client built without a key, and two responses of the server.\<close>

definition example_client :: AnfMcpClient where
  "example_client = AnfMcpClient_init Map.empty ''http://localhost:8000/'' None 30"

definition not_found :: requests_Response where
  "not_found = \<lparr>status_code = 404, resp_text = ''Not Found'', json_body = None\<rparr>"

definition multiple_choices :: requests_Response where
  "multiple_choices = \<lparr>status_code = 300, resp_text = ''[]'', json_body = Some (JList [])\<rparr>"

section \<open>How a handler runs\<close>

text \<open>
  The next lemmas describe every run of a handler: what it answers and which calls
  it makes, from what the client and the poller give.
\<close>

lemmas handler_defs =
  accounts_list_accounts_def accounts_create_account_def accounts_delete_account_def
  pools_list_pools_def pools_create_pool_def pools_update_pool_def pools_delete_pool_def
  full_list_accounts_def full_create_account_def full_delete_account_def
  complete_list_pools_def complete_create_pool_def complete_update_pool_def complete_delete_pool_def
  polling_url_def

lemma serve_authenticated:
  "request_errors i = [] \<Longrightarrow> invoke env client i = (out, tr) \<Longrightarrow>
   serve env client (Some (API_KEY env)) i =
     ((case out of Inl e \<Rightarrow> exception_response e | Inr v \<Rightarrow> Response (route_status_code i) v), tr)"
  by (simp add: serve_def route_def verify_key_def split: sum.splits)

lemma mutating_status_code: "wait_flag i = Some w \<Longrightarrow> route_status_code i = 202"
  by (cases i; rename_tac r; case_tac r) auto

lemma mutating_begins:
  assumes "wait_flag i = Some w" and "invoke env client i = (out, tr)"
  shows "(empty_update i \<and> out = Inl (HTTPException 400 ''Specify new_size_tb or service_level'') \<and> tr = [])
       \<or> (\<not> empty_update i \<and> (\<exists>c. Began c \<in> set tr))"
proof (cases i)
  case (Mcp_accounts r) with assms show ?thesis
    by (cases r) (auto simp: handler_defs Let_def split: sum.splits if_splits)
next
  case (Mcp_pools r)
  show ?thesis
  proof (cases r)
    case (Update_pool a p sz sl w')
    with Mcp_pools assms show ?thesis
      by (cases sz; cases sl) (auto simp: handler_defs Let_def split: sum.splits if_splits)
  qed (use Mcp_pools assms in \<open>auto simp: handler_defs Let_def split: sum.splits if_splits\<close>)
next
  case (Full_accounts r) with assms show ?thesis
    by (cases r) (auto simp: handler_defs Let_def split: sum.splits if_splits)
next
  case (Complete_pools r)
  show ?thesis
  proof (cases r)
    case (Update_pool a p sz sl w')
    with Complete_pools assms show ?thesis
      by (cases sz; cases sl) (auto simp: handler_defs Let_def split: sum.splits if_splits)
  qed (use Complete_pools assms in \<open>auto simp: handler_defs Let_def split: sum.splits if_splits\<close>)
next
  case (Standalone r) with assms show ?thesis by simp
qed

text \<open>With \<open>wait\<close> unset, a call that the client accepted ends in the
  \<open>AttributeError\<close> of \<open>polling_url\<close>.\<close>

lemma mutating_run:
  assumes "wait_flag i = Some w" and "invoke env client i = (out, tr)" and "Began c \<in> set tr"
  shows "case begin_op client c of
           Inl err \<Rightarrow> out = Inl (sdk_error err) \<and> tr = [Began c]
         | Inr p \<Rightarrow>
             if w then
               (case poller_result p of
                  Inl err \<Rightarrow> out = Inl (sdk_error err)
                | Inr r \<Rightarrow> out = Inr (if is_delete i then JDict [(''status'', JStr ''deleted'')] else r))
               \<and> tr = [Began c, Poller_result]
             else out = Inl (AttributeError ''polling_url'')
               \<and> tr = [Began c, Poller_polling_url]"
proof (cases i)
  case (Mcp_accounts r) with assms show ?thesis
    by (cases r) (auto simp: handler_defs Let_def split: sum.splits if_splits)
next
  case (Mcp_pools r)
  show ?thesis
  proof (cases r)
    case (Update_pool a p sz sl w')
    with Mcp_pools assms show ?thesis
      by (cases sz; cases sl) (auto simp: handler_defs Let_def split: sum.splits if_splits)
  qed (use Mcp_pools assms in \<open>auto simp: handler_defs Let_def split: sum.splits if_splits\<close>)
next
  case (Full_accounts r) with assms show ?thesis
    by (cases r) (auto simp: handler_defs Let_def split: sum.splits if_splits)
next
  case (Complete_pools r)
  show ?thesis
  proof (cases r)
    case (Update_pool a p sz sl w')
    with Complete_pools assms show ?thesis
      by (cases sz; cases sl) (auto simp: handler_defs Let_def split: sum.splits if_splits)
  qed (use Complete_pools assms in \<open>auto simp: handler_defs Let_def split: sum.splits if_splits\<close>)
next
  case (Standalone r) with assms show ?thesis by simp
qed

lemma list_run:
  assumes "wait_flag i = None" and "in_router i" and "invoke env client i = (out, tr)"
  shows "\<exists>l. tr = [Listed l] \<and>
           (case list_op client l of Inl err \<Rightarrow> out = Inl (sdk_error err) | Inr xs \<Rightarrow> out = Inr (JList xs))"
proof (cases i)
  case (Mcp_accounts r) with assms show ?thesis
    by (cases r) (auto simp: handler_defs Let_def split: sum.splits if_splits)
next
  case (Mcp_pools r) with assms show ?thesis
    by (cases r) (auto simp: handler_defs Let_def split: sum.splits if_splits)
next
  case (Full_accounts r) with assms show ?thesis
    by (cases r) (auto simp: handler_defs Let_def split: sum.splits if_splits)
next
  case (Complete_pools r) with assms show ?thesis
    by (cases r) (auto simp: handler_defs Let_def split: sum.splits if_splits)
next
  case (Standalone r) with assms show ?thesis by simp
qed

text \<open>The single-file app: one call on the client per run, the result awaited, and a
  failure of the client left uncaught.\<close>

lemma standalone_create_run:
  "invoke env client (Standalone (Standalone_create_account a l)) = (out, tr) \<Longrightarrow>
   \<exists>c. filter is_mutating tr = [Began c] \<and>
     (case begin_op client c of
        Inl err \<Rightarrow> out = Inl (Uncaught err) \<and> tr = [Began c]
      | Inr p \<Rightarrow> tr = [Began c, Poller_result] \<and>
          (case poller_result p of Inl err \<Rightarrow> out = Inl (Uncaught err) | Inr r \<Rightarrow> out = Inr r))"
  by (auto simp: standalone_create_account_def Let_def split: sum.splits)

text \<open>Two runs against the stubs, used as examples below.\<close>

lemma example_create_wait:
  "invoke Map.empty stub_client (Complete_pools (Create_pool example_pool True)) =
     (Inr stub_resource, [Began example_create_call, Poller_result])"
  by (simp add: complete_create_pool_def complete_RESOURCE_GROUP_def getenv_default_def
        example_pool_def stub_client_def example_create_call_def)


lemma example_client_simps:
  "base_url example_client = ''http://localhost:8000''"
  "api_key example_client = ''changeme''"
  "timeout example_client = 30"
  by (simp_all add: example_client_def AnfMcpClient_init_def rstrip_slash_def)

lemma str_int_404: "str_int 404 = ''404''"
  by (simp add: str_int_def str_nat.simps)


section \<open>Authentication\<close>

text \<open>
  A request whose \<open>x-api-key\<close> header differs from the configured key is answered
  with 401 on every route of every module, and no call reaches the client; a
  request without the header is answered 422, and no call reaches the client
  either.
\<close>

lemma wrong_key_is_401:
  assumes "k \<noteq> API_KEY env"
  shows "serve env client (Some k) i =
           (Response 401 (JDict [(''detail'', JStr ''Invalid API Key'')]), [])"
  using assms by (simp add: serve_def route_def verify_key_def)

lemma missing_key_no_call:
  "snd (serve env client None i) = [] \<and> status (fst (serve env client None i)) = 422"
  by (simp add: serve_def route_def validation_response_def)

text \<open>
  Claim C2 (every request to a route other than GET /health without a correct
  \<open>x-api-key\<close> is answered with 401 and makes no client call), at the request of the
  repository's tests \<open>test_accounts_requires_auth\<close>, \<open>test_accounts_need_auth\<close> and
  \<open>test_pools_need_auth\<close>: GET /accounts/ and GET /pools/?account=foo with no
  \<open>x-api-key\<close> header.  The header is declared required, so the request fails
  validation: the answer is 422, not 401, and \<open>verify_key\<close> does not run.  No call
  reaches the client.  This is so on the list route of each of the four routers and
  of the single-file app; the routers of anf_aiops_full and anf_aiops_complete can
  be imported in every environment.
\<close>

theorem missing_key_is_422:
  "serve env client None (Mcp_accounts List_accounts) =
     (Response 422 (JDict [(''detail'',
        JList [JDict [(''loc'', JList [JStr ''header'', JStr ''x-api-key''])]])]), [])
   \<and> serve env client None (Full_accounts List_accounts) =
     (Response 422 (JDict [(''detail'',
        JList [JDict [(''loc'', JList [JStr ''header'', JStr ''x-api-key''])]])]), [])
   \<and> serve env client None (Mcp_pools (List_pools acct)) =
     (Response 422 (JDict [(''detail'',
        JList [JDict [(''loc'', JList [JStr ''header'', JStr ''x-api-key''])]])]), [])
   \<and> serve env client None (Complete_pools (List_pools acct)) =
     (Response 422 (JDict [(''detail'',
        JList [JDict [(''loc'', JList [JStr ''header'', JStr ''x-api-key''])]])]), [])
   \<and> serve env client None (Standalone Standalone_list_accounts) =
     (Response 422 (JDict [(''detail'',
        JList [JDict [(''loc'', JList [JStr ''header'', JStr ''x-api-key''])]])]), [])
   \<and> module_imports env (Full_accounts List_accounts)
   \<and> module_imports env (Complete_pools (List_pools acct))"
  by (simp add: serve_def route_def validation_response_def)

text \<open>
  Claim C9: when \<open>MCP_API_KEY\<close> is unset the server's key is the literal
  \<open>changeme\<close>, so a request presenting \<open>x-api-key: changeme\<close> passes \<open>verify_key\<close>; a
  thin client built without a key sends that same key, which therefore passes too.
\<close>

theorem default_api_key:
  assumes "env ''MCP_API_KEY'' = None"
  shows "API_KEY env = ''changeme''
       \<and> verify_key env ''changeme'' = Inr ()
       \<and> route env sc (Some ''changeme'') [] run =
           (case run of
              (Inl e, tr) \<Rightarrow> (exception_response e, tr)
            | (Inr v, tr) \<Rightarrow> (Response sc v, tr))
       \<and> api_key (AnfMcpClient_init env url' None t) = ''changeme''
       \<and> AnfMcpClient_headers (AnfMcpClient_init env url' None t) = [(''x-api-key'', ''changeme'')]
       \<and> verify_key env (api_key (AnfMcpClient_init env url' None t)) = Inr ()"
proof -
  from assms have key: "API_KEY env = ''changeme''"
    by (simp add: API_KEY_def getenv_default_def)
  then have ok: "verify_key env ''changeme'' = Inr ()"
    by (simp add: verify_key_def)
  from assms have client: "api_key (AnfMcpClient_init env url' None t) = ''changeme''"
    by (simp add: AnfMcpClient_init_def)
  from ok have "route env sc (Some ''changeme'') [] run =
           (case run of
              (Inl e, tr) \<Rightarrow> (exception_response e, tr)
            | (Inr v, tr) \<Rightarrow> (Response sc v, tr))"
    by (simp add: route_def)
  with key ok client show ?thesis
    by (simp add: AnfMcpClient_headers_def)
qed

theorem default_api_key_witness:
  "Map.empty ''MCP_API_KEY'' = (None :: string option)
   \<and> API_KEY Map.empty = ''changeme''
   \<and> verify_key Map.empty ''changeme'' = Inr ()
   \<and> route Map.empty 200 (Some ''changeme'') [] (Inr (JList [stub_resource]), [Listed (Accounts_list None)]) =
       (Response 200 (JList [stub_resource]), [Listed (Accounts_list None)])
   \<and> api_key (AnfMcpClient_init Map.empty ''http://localhost:8000/'' None 30) = ''changeme''"
proof -
  have h: "Map.empty ''MCP_API_KEY'' = (None :: string option)" by simp
  from default_api_key [OF h, of 200 "(Inr (JList [stub_resource]), [Listed (Accounts_list None)])"
         "''http://localhost:8000/''" 30] h
  show ?thesis by simp
qed

section \<open>Validation\<close>

text \<open>
  In anf_aiops_complete a create request whose \<open>size_tb\<close> is not positive or whose
  \<open>service_level\<close> fails the pattern never reaches the client: the answer is 422 (401
  when the key is wrong).  The pattern accepts the four names, and each of them
  followed by one newline.
\<close>

lemma complete_create_rejects_invalid:
  assumes "size_tb spec \<le> 0 \<or> \<not> service_level_regex_matches (service_level spec)"
  shows "snd (serve env client key (Complete_pools (Create_pool spec wait))) = []"
    and "status (fst (serve env client key (Complete_pools (Create_pool spec wait)))) \<in> {401, 422}"
  using assms
  by (auto simp: serve_def route_def verify_key_def PoolSpec_errors_def validation_response_def
        split: option.splits)

lemma service_level_regex_matches_iff:
  "service_level_regex_matches s \<longleftrightarrow>
     s \<in> {''Ultra'', ''Premium'', ''Standard'', ''StandardZRS'',
          ''Ultra'' @ [CHR 0x0A], ''Premium'' @ [CHR 0x0A], ''Standard'' @ [CHR 0x0A],
          ''StandardZRS'' @ [CHR 0x0A]}"
  by (auto simp: service_level_regex_matches_def service_levels_def)

text \<open>
  Claim C1 (a pool-create request with \<open>size_tb \<le> 0\<close> or a service level outside
  Ultra, Premium, Standard, StandardZRS fails with a 4xx validation error and makes
  no client call), in anf_aiops_complete, at a request whose service level is
  \<open>Ultra\<close> followed by a newline.  That string is none of the four names, but the
  pattern of \<open>PoolSpec\<close> ends in \<open>$\<close>, which matches before a final newline: the
  request passes validation, \<open>create_pool\<close> calls \<open>begin_create_or_update\<close> with
  it, and (with \<open>wait=true\<close>) the answer is 202.
\<close>

theorem create_pool_accepts_trailing_newline:
  "module_imports Map.empty (Complete_pools (Create_pool newline_pool True))
   \<and> service_level newline_pool \<notin> set service_levels
   \<and> serve Map.empty stub_client (Some ''changeme'') (Complete_pools (Create_pool newline_pool True)) =
       (Response 202 stub_resource, [Began newline_create_call, Poller_result])"
  by (simp add: serve_def route_def verify_key_def API_KEY_def getenv_default_def
        PoolSpec_errors_def service_level_regex_matches_def service_levels_def
        complete_create_pool_def complete_RESOURCE_GROUP_def newline_pool_def
        newline_create_call_def stub_client_def)


text \<open>
  Claim C5: a pool-update request with neither \<open>new_size_tb\<close> nor \<open>service_level\<close>
  fails with HTTP 400 and makes no client call, in both copies of \<open>update_pool\<close>.
\<close>

theorem update_without_fields_is_400:
  "serve env client (Some (API_KEY env)) (Mcp_pools (Update_pool acct pl None None wait)) =
     (Response 400 (JDict [(''detail'', JStr ''Specify new_size_tb or service_level'')]), [])
   \<and> serve env client (Some (API_KEY env)) (Complete_pools (Update_pool acct pl None None wait)) =
     (Response 400 (JDict [(''detail'', JStr ''Specify new_size_tb or service_level'')]), [])
   \<and> pools_update_pool env client acct pl None None wait =
     (Inl (HTTPException 400 ''Specify new_size_tb or service_level''), [])
   \<and> complete_update_pool env client acct pl None None wait =
     (Inl (HTTPException 400 ''Specify new_size_tb or service_level''), [])"
  by (simp add: serve_def route_def verify_key_def
        pools_update_pool_def complete_update_pool_def)

text \<open>
  Claim C10: with \<open>new_size_tb = 0\<close> and no \<open>service_level\<close> the guard of
  \<open>update_pool\<close> does not fire (0 is not \<open>None\<close>), the truthiness test drops the
  size, and the one mutating call that follows carries the empty patch \<open>{}\<close>.  Both
  copies behave so.
\<close>

theorem update_size_zero_forwards_empty_patch:
  "pools_update_pool env client acct pl (Some 0) None wait
     \<noteq> (Inl (HTTPException 400 ''Specify new_size_tb or service_level''), [])
   \<and> filter is_mutating (snd (pools_update_pool env client acct pl (Some 0) None wait)) =
       [Began (Pools_begin_create_or_update (pools_RESOURCE_GROUP env) acct pl (JDict []))]
   \<and> complete_update_pool env client acct pl (Some 0) None wait
     \<noteq> (Inl (HTTPException 400 ''Specify new_size_tb or service_level''), [])
   \<and> filter is_mutating (snd (complete_update_pool env client acct pl (Some 0) None wait)) =
       [Began (Pools_begin_create_or_update (complete_RESOURCE_GROUP env) acct pl (JDict []))]"
  by (auto simp: pools_update_pool_def complete_update_pool_def update_body_def Let_def
        split: sum.splits)

section \<open>The long-running-operation pattern\<close>

text \<open>
  With \<open>wait=false\<close>, every mutating handler of the routers whose call the client
  accepted goes on to \<open>poller.polling_url()\<close> and leaves with its \<open>AttributeError\<close>:
  the answer is 500, and the operation has been started.
\<close>

lemma async_call_raises:
  assumes "wait_flag i = Some False" and "invoke env client i = (out, tr)"
      and "Began c \<in> set tr" and "begin_op client c = Inr p"
  shows "out = Inl (AttributeError ''polling_url'')"
    and "tr = [Began c, Poller_polling_url]"
    and "request_errors i = [] \<Longrightarrow>
           serve env client (Some (API_KEY env)) i =
             (Response 500 (JStr ''Internal Server Error''), [Began c, Poller_polling_url])"
proof -
  from mutating_run [OF assms(1,2,3)] assms(4)
  show out: "out = Inl (AttributeError ''polling_url'')"
    and tr: "tr = [Began c, Poller_polling_url]"
    by auto
  assume "request_errors i = []"
  from serve_authenticated [OF this assms(2)] out tr
  show "serve env client (Some (API_KEY env)) i =
          (Response 500 (JStr ''Internal Server Error''), [Began c, Poller_polling_url])"
    by simp
qed

text \<open>
  Claim C3 (a successful mutating call with \<open>wait=false\<close> is answered 202 with a
  body \<open>{"operation": ...}\<close>, without waiting), in anf_aiops_complete, at a valid
  create request with \<open>wait=false\<close> that the client accepts: the handler builds the
  body from \<open>poller.polling_url()\<close>, a method the poller of the SDK does not have,
  so the request is answered 500 after the create has been started.
\<close>

theorem polling_url_is_missing:
  "module_imports Map.empty (Complete_pools (Create_pool example_pool False))
   \<and> request_errors (Complete_pools (Create_pool example_pool False)) = []
   \<and> begin_op stub_client example_create_call = Inr \<lparr>poller_result = Inr stub_resource\<rparr>
   \<and> serve Map.empty stub_client (Some ''changeme'') (Complete_pools (Create_pool example_pool False)) =
       (Response 500 (JStr ''Internal Server Error''),
        [Began example_create_call, Poller_polling_url])"
  by (simp add: serve_def route_def verify_key_def API_KEY_def getenv_default_def
        PoolSpec_errors_def service_level_regex_matches_def service_levels_def
        complete_create_pool_def complete_RESOURCE_GROUP_def example_pool_def
        example_create_call_def stub_client_def polling_url_def)

text \<open>
  Claim C4 as stated (with \<open>wait=true\<close> and a long-running operation that succeeds,
  the body is the final resource representation) fails for the delete handlers:
  the operation ends with nothing, and the body is the fixed object
  \<open>{"status": "deleted"}\<close>.  The two copies of \<open>delete_pool\<close> agree.
\<close>

theorem delete_wait_body_is_not_the_resource:
  "begin_op stub_client (Pools_begin_delete None ''acct1'' ''pool1'') =
     Inr \<lparr>poller_result = Inr JNone\<rparr>
   \<and> invoke Map.empty stub_client (Mcp_pools (Delete_pool ''acct1'' ''pool1'' True)) =
       (Inr (JDict [(''status'', JStr ''deleted'')]),
        [Began (Pools_begin_delete None ''acct1'' ''pool1''), Poller_result])
   \<and> begin_op stub_client (Pools_begin_delete (Some ''dummy'') ''acct1'' ''pool1'') =
       Inr \<lparr>poller_result = Inr JNone\<rparr>
   \<and> invoke Map.empty stub_client (Complete_pools (Delete_pool ''acct1'' ''pool1'' True)) =
       (Inr (JDict [(''status'', JStr ''deleted'')]),
        [Began (Pools_begin_delete (Some ''dummy'') ''acct1'' ''pool1''), Poller_result])
   \<and> JDict [(''status'', JStr ''deleted'')] \<noteq> JNone"
  by (simp add: pools_delete_pool_def pools_RESOURCE_GROUP_def complete_delete_pool_def
        complete_RESOURCE_GROUP_def getenv_default_def stub_client_def)

text \<open>
  Claim C4, amended: with \<open>wait=true\<close> and a long-running operation that succeeds,
  the body of a create or update is the final resource (\<open>result().as_dict()\<close>), the
  body of a delete is \<open>{"status": "deleted"}\<close>; in both cases the handler calls
  \<open>result()\<close> and never asks for the polling URL, so the body holds no operation
  reference.
\<close>

theorem wait_returns_final:
  assumes "wait_flag i = Some True" and "request_errors i = []"
      and "invoke env client i = (out, tr)"
      and "Began c \<in> set tr" and "begin_op client c = Inr p" and "poller_result p = Inr r"
  shows "out = Inr (if is_delete i then JDict [(''status'', JStr ''deleted'')] else r)
       \<and> content (fst (serve env client (Some (API_KEY env)) i)) =
           (if is_delete i then JDict [(''status'', JStr ''deleted'')] else r)
       \<and> tr = [Began c, Poller_result]
       \<and> Poller_polling_url \<notin> set tr"
proof -
  from mutating_run [OF assms(1,3,4)] assms(5,6)
  have run: "out = Inr (if is_delete i then JDict [(''status'', JStr ''deleted'')] else r)"
            "tr = [Began c, Poller_result]"
    by auto
  with serve_authenticated [OF assms(2,3)] show ?thesis by simp
qed

theorem wait_returns_final_witness:
  "wait_flag (Complete_pools (Create_pool example_pool True)) = Some True
   \<and> request_errors (Complete_pools (Create_pool example_pool True)) = []
   \<and> Began example_create_call \<in> set [Began example_create_call, Poller_result]
   \<and> begin_op stub_client example_create_call = Inr \<lparr>poller_result = Inr stub_resource\<rparr>
   \<and> content (fst (serve Map.empty stub_client (Some (API_KEY Map.empty))
                      (Complete_pools (Create_pool example_pool True)))) = stub_resource
   \<and> Poller_polling_url \<notin> set [Began example_create_call, Poller_result]"
proof -
  have h1: "wait_flag (Complete_pools (Create_pool example_pool True)) = Some True" by simp
  have h2: "request_errors (Complete_pools (Create_pool example_pool True)) = []"
    by (simp add: PoolSpec_errors_def service_level_regex_matches_def service_levels_def
          example_pool_def)
  have h4: "Began example_create_call \<in> set [Began example_create_call, Poller_result]" by simp
  have h5: "begin_op stub_client example_create_call = Inr \<lparr>poller_result = Inr stub_resource\<rparr>"
    by (simp add: stub_client_def example_create_call_def)
  have h6: "poller_result \<lparr>poller_result = Inr stub_resource\<rparr> = Inr stub_resource"
    by simp
  from wait_returns_final [OF h1 h2 example_create_wait h4 h5 h6] h1 h2 h4 h5
  show ?thesis by simp
qed

text \<open>
  In the four router modules, when a call on the client fails with an
  \<open>HttpResponseError\<close>, whether the client rejects the call at once, the
  long-running operation fails under \<open>wait=true\<close>, or a list call fails, the handler
  raises an \<open>HTTPException\<close> with exactly that status code and that message, and the
  response carries them unchanged (the message as \<open>detail\<close>).
\<close>

lemma router_error_passes_through:
  assumes "invoke env client i = (out, tr)" and "request_errors i = []" and "in_router i"
      and "(\<exists>c. Began c \<in> set tr \<and> begin_op client c = Inl err)
         \<or> (\<exists>c p. Began c \<in> set tr \<and> begin_op client c = Inr p
                  \<and> Poller_result \<in> set tr \<and> poller_result p = Inl err)
         \<or> (\<exists>l. Listed l \<in> set tr \<and> list_op client l = Inl err)"
  shows "out = Inl (HTTPException (err_status_code err) (err_message err))
       \<and> serve env client (Some (API_KEY env)) i =
           (Response (err_status_code err) (JDict [(''detail'', JStr (err_message err))]), tr)"
proof -
  have out: "out = Inl (HTTPException (err_status_code err) (err_message err))"
  proof (cases "wait_flag i")
    case None
    from list_run [OF None assms(3,1)] obtain l where
      l: "tr = [Listed l]"
         "case list_op client l of Inl e \<Rightarrow> out = Inl (sdk_error e) | Inr xs \<Rightarrow> out = Inr (JList xs)"
      by auto
    with assms(4) have "list_op client l = Inl err" by auto
    with l show ?thesis by (simp add: sdk_error_def)
  next
    case (Some w)
    from assms(4) have "tr \<noteq> []" by auto
    with mutating_begins [OF Some assms(1)] obtain c0 where c0: "Began c0 \<in> set tr" by auto
    from mutating_run [OF Some assms(1) c0] assms(4) show ?thesis
      by (auto simp: sdk_error_def split: sum.splits if_splits)
  qed
  with serve_authenticated [OF assms(2,1)] show ?thesis
    by simp
qed

text \<open>
  Claim C6 (when the client fails a call with a remote status code and message,
  the error response carries exactly that status code and message), in the
  single-file app src/mcp-server/app.py, at a create request that the client
  rejects with 409: \<open>create_account\<close> has no \<open>try\<close>, the \<open>HttpResponseError\<close> leaves
  the handler uncaught, and the answer is 500 with neither the remote status code
  nor the remote message.
\<close>

theorem standalone_error_is_500:
  "module_imports azure_env (Standalone (Standalone_create_account ''acct1'' ''eastus''))
   \<and> begin_op rejecting_client
        (Accounts_begin_create_or_update (Some ''rg-1'') ''acct1''
           (JDict [(''location'', JStr ''eastus'')])) = Inl (HttpResponseError 409 ''Conflict: operation in progress'')
   \<and> serve azure_env rejecting_client (Some ''changeme'')
        (Standalone (Standalone_create_account ''acct1'' ''eastus'')) =
       (Response 500 (JStr ''Internal Server Error''),
        [Began (Accounts_begin_create_or_update (Some ''rg-1'') ''acct1''
                  (JDict [(''location'', JStr ''eastus'')]))])"
  by (simp add: serve_def route_def verify_key_def API_KEY_def getenv_default_def
        standalone_module_loads_def standalone_create_account_def standalone_RESOURCE_GROUP_def
        azure_env_def rejecting_client_def conflict_def)



section \<open>The thin client\<close>

text \<open>
  Claim C8 as stated (a response outside the success range makes \<open>_request\<close> fail
  with \<open>ApiError\<close>) fails for a status below 400 that is not a 2xx: the guard is
  \<open>status_code >= 400\<close>, so a 300 response with a JSON body is returned as a payload.
\<close>

theorem redirect_status_is_not_an_ApiError:
  "\<not> (200 \<le> status_code multiple_choices \<and> status_code multiple_choices < 300)
   \<and> AnfMcpClient_request (\<lambda>c. Inr multiple_choices) example_client ''GET'' ''/accounts'' [] =
       (Inr (JList []),
        [\<lparr>http_method = ''GET'', url = ''http://localhost:8000/accounts'',
          headers = [(''x-api-key'', ''changeme'')], http_timeout = 30, kwargs = []\<rparr>])"
  by (simp add: AnfMcpClient_request_def AnfMcpClient_headers_def example_client_simps
        multiple_choices_def)

text \<open>
  Claim C8, amended: when the response has a status of 400 or more, \<open>_request\<close>
  fails with an \<open>ApiError\<close> that carries the status and the body (as the message
  \<open>"<status> <body text>"\<close>); for every other status it returns \<open>resp.json()\<close>, the
  JSON-decoded payload of the response (the decoding error when the body is not
  JSON).  No retries are performed: \<open>_request\<close> calls \<open>requests.request\<close> once.
\<close>

theorem request_raises_or_decodes:
  assumes "requests_request \<lparr>http_method = method, url = base_url self @ path,
             headers = [(''x-api-key'', api_key self)], http_timeout = timeout self,
             kwargs = kw\<rparr> = Inr resp"
  shows "(status_code resp \<ge> 400 \<longrightarrow>
            fst (AnfMcpClient_request requests_request self method path kw) =
              Inl (ApiError (str_int (status_code resp) @ '' '' @ resp_text resp)))
       \<and> (status_code resp < 400 \<longrightarrow>
            fst (AnfMcpClient_request requests_request self method path kw) =
              (case json_body resp of Some j \<Rightarrow> Inr j | None \<Rightarrow> Inl JSONDecodeError))
       \<and> snd (AnfMcpClient_request requests_request self method path kw) =
           [\<lparr>http_method = method, url = base_url self @ path,
             headers = [(''x-api-key'', api_key self)], http_timeout = timeout self,
             kwargs = kw\<rparr>]"
  using assms
  by (auto simp: AnfMcpClient_request_def AnfMcpClient_headers_def Let_def split: option.splits)

theorem request_raises_or_decodes_witness:
  "status_code not_found \<ge> 400
   \<and> fst (AnfMcpClient_request (\<lambda>c. Inr not_found) example_client ''GET'' ''/accounts'' []) =
       Inl (ApiError ''404 Not Found'')
   \<and> snd (AnfMcpClient_request (\<lambda>c. Inr not_found) example_client ''GET'' ''/accounts'' []) =
       [\<lparr>http_method = ''GET'', url = ''http://localhost:8000/accounts'',
         headers = [(''x-api-key'', ''changeme'')], http_timeout = 30, kwargs = []\<rparr>]"
proof -
  have h: "(\<lambda>c. Inr not_found) \<lparr>http_method = ''GET'', url = base_url example_client @ ''/accounts'',
             headers = [(''x-api-key'', api_key example_client)],
             http_timeout = timeout example_client, kwargs = []\<rparr> = Inr not_found"
    by simp
  have s: "status_code not_found \<ge> 400" by (simp add: not_found_def)
  from request_raises_or_decodes [OF h] s show ?thesis
    by (simp add: example_client_simps not_found_def str_int_404)
qed

end
